theory Spec2Isabelle
  imports Main "HOL-Library.Word"
begin

section \<open>Strings of the runtime\<close>

text \<open>
  A string of the TypeScript sources is a sequence of UTF-16 code units. The literals of
  the sources are ASCII and are written through \<open>ascii\<close>.
\<close>

type_synonym jschar = "16 word"
type_synonym jsstring = "jschar list"
type_synonym byte = "8 word"

definition ascii :: "string \<Rightarrow> jsstring" where
  "ascii s = map (\<lambda>c. of_nat (of_char c)) s"

text \<open>
  \<open>String.prototype.trim\<close> strips the code units that ECMAScript calls WhiteSpace or
  LineTerminator from both ends: TAB, LF, VT, FF, CR, SPACE, NBSP, the other space
  separators of Unicode, LS, PS and the byte order mark.
\<close>

definition is_whitespace :: "jschar \<Rightarrow> bool" where
  "is_whitespace c \<longleftrightarrow> c \<in> set [0x9, 0xA, 0xB, 0xC, 0xD, 0x20, 0xA0, 0x1680,
     0x2000, 0x2001, 0x2002, 0x2003, 0x2004, 0x2005, 0x2006, 0x2007, 0x2008, 0x2009, 0x200A,
     0x2028, 0x2029, 0x202F, 0x205F, 0x3000, 0xFEFF]"

definition trim :: "jsstring \<Rightarrow> jsstring" where
  "trim s = rev (dropWhile is_whitespace (rev (dropWhile is_whitespace s)))"

section \<open>The hosted backend\<close>

text \<open>
  The pages talk to a hosted relational backend through its client library. A table is
  the list of its rows. Identifiers are issued by the server and only compared for
  equality; timestamps are only compared for order. The row types follow the generated
  \<open>Database\<close> type of the sources, restricted to the columns the pages read or write;
  a column typed \<open>T | null\<close> there is a \<open>T option\<close> here.
\<close>

type_synonym uuid = nat
type_synonym timestamp = nat

datatype table = ChatRooms | RoomParticipants | Messages | Profiles
  | VerificationImages | VerificationAudio | LocationTracking

record room_row =
  r_id :: uuid
  r_name :: jsstring
  r_room_code :: jsstring
  r_description :: "jsstring option"
  r_created_by :: uuid
  r_created_at :: timestamp
  r_is_active :: "bool option"
  r_is_password_protected :: "bool option"
  r_password_hash :: "jsstring option"
  r_max_participants :: "int option"

record participant_row =
  p_id :: uuid
  p_room_id :: uuid
  p_user_id :: uuid
  p_is_active :: "bool option"
  p_joined_at :: timestamp

record message_row =
  m_id :: uuid
  m_room_id :: uuid
  m_user_id :: uuid
  m_content :: jsstring
  m_message_type :: "jsstring option"
  m_created_at :: timestamp

record profile_row =
  pr_user_id :: uuid
  pr_display_name :: "jsstring option"
  pr_avatar_url :: "jsstring option"

record image_row =
  vi_id :: uuid
  vi_user_id :: uuid
  vi_image_url :: jsstring
  vi_captured_at :: timestamp

record audio_row =
  va_id :: uuid
  va_user_id :: uuid
  va_audio_url :: jsstring
  va_recorded_at :: timestamp

record location_row =
  lt_id :: uuid
  lt_user_id :: uuid
  lt_recorded_at :: timestamp

text \<open>
  \<open>faults\<close> lists the tables whose requests currently fail (network, access policy),
  each with the message of the error the client library reports.
\<close>

record backend =
  t_chat_rooms :: "room_row list"
  t_room_participants :: "participant_row list"
  t_messages :: "message_row list"
  t_profiles :: "profile_row list"
  t_verification_images :: "image_row list"
  t_verification_audio :: "audio_row list"
  t_location_tracking :: "location_row list"
  faults :: "(table \<times> jsstring) list"

text \<open>
  The values the server fills in for the columns an insert leaves out: the new row's
  \<open>id\<close>, the current time, and for a room its \<open>room_code\<close> and \<open>is_active\<close>.
\<close>

record server =
  fresh_id :: uuid
  now :: timestamp
  issued_room_code :: jsstring
  default_is_active :: "bool option"

text \<open>
  A request resolves to \<open>{ data, error }\<close>; the client library does not throw. Exactly one
  of the two is set: \<open>Data\<close> is a response with \<open>error = null\<close>, \<open>Failed\<close> one with
  \<open>data = null\<close> (and \<open>count = null\<close>).
\<close>

datatype 'a response = Data 'a | Failed jsstring

definition request :: "backend \<Rightarrow> table \<Rightarrow> 'a \<Rightarrow> 'a response" where
  "request db t result =
     (case map_of (faults db) t of Some msg \<Rightarrow> Failed msg | None \<Rightarrow> Data result)"

text \<open>\<open>.single()\<close>: exactly one row, otherwise an error.\<close>

fun single :: "'a list response \<Rightarrow> 'a response" where
  "single (Failed msg) = Failed msg"
| "single (Data [r]) = Data r"
| "single (Data rs) = Failed (ascii ''JSON object requested, multiple (or no) rows returned'')"


text \<open>\<open>.order(column, { ascending })\<close>; rows equal in the column keep their table order.\<close>

definition order_asc :: "('r \<Rightarrow> timestamp) \<Rightarrow> 'r list \<Rightarrow> 'r list" where
  "order_asc col rows = sort_key col rows"


section \<open>What a handler does besides updating state\<close>

datatype variant = Default | Destructive

datatype effect =
    ShowToast jsstring jsstring variant
  | Navigate jsstring
  | ConsoleError jsstring

text \<open>Both pages keep the signed-in user; \<open>currentUser.id\<close> is all the handlers read of it.\<close>

record page_state =
  currentUser :: "uuid option"

section \<open>Chat page\<close>

record profile_view =
  display_name :: "jsstring option"
  avatar_url :: "jsstring option"

record message =
  msg_id :: uuid
  content :: jsstring
  user_id :: uuid
  created_at :: timestamp
  profiles :: profile_view

record chat_state = page_state +
  messages :: "message list"
  newMessage :: jsstring
  room :: "room_row option"

subsection \<open>joinRoom\<close>

text \<open>The rows of one (room, user) pair.\<close>

definition same_pair :: "uuid \<Rightarrow> uuid \<Rightarrow> participant_row \<Rightarrow> bool" where
  "same_pair roomId userId p \<longleftrightarrow> p_room_id p = roomId \<and> p_user_id p = userId"

text \<open>
  Modelled from the spec: the conflict target of the \<open>room_participants\<close> table, whose
  declaration is not among the sources. The spec keeps at most one membership per
  (room, user) pair and has a repeated join update the row of the pair rather than add one.
  The upsert sends \<open>{ room_id, user_id, is_active: true }\<close>: on a conflict only
  \<open>is_active\<close> is overwritten, otherwise the server fills in \<open>id\<close> and \<open>joined_at\<close>.
\<close>

definition upsert_participant ::
  "server \<Rightarrow> backend \<Rightarrow> uuid \<Rightarrow> uuid \<Rightarrow> backend \<times> unit response" where
  "upsert_participant srv db roomId userId =
     (case request db RoomParticipants () of
        Failed msg \<Rightarrow> (db, Failed msg)
      | Data u \<Rightarrow>
          (if list_ex (same_pair roomId userId) (t_room_participants db)
           then db\<lparr>t_room_participants :=
                  map (\<lambda>p. if same_pair roomId userId p then p\<lparr>p_is_active := Some True\<rparr> else p)
                    (t_room_participants db)\<rparr>
           else db\<lparr>t_room_participants := t_room_participants db @
                  [\<lparr>p_id = fresh_id srv, p_room_id = roomId, p_user_id = userId,
                    p_is_active = Some True, p_joined_at = now srv\<rparr>]\<rparr>,
           Data ()))"

text \<open>An active membership of the pair: what the roster and the capacity check count.\<close>

definition active_pair :: "uuid \<Rightarrow> uuid \<Rightarrow> participant_row \<Rightarrow> bool" where
  "active_pair roomId userId p \<longleftrightarrow> same_pair roomId userId p \<and> p_is_active p = Some True"

text \<open>The chat page's \<open>joinRoom\<close>: the upsert; an error is logged and nothing else happens.\<close>

definition chat_joinRoom :: "server \<Rightarrow> backend \<Rightarrow> uuid \<Rightarrow> uuid \<Rightarrow> backend \<times> effect list" where
  "chat_joinRoom srv db roomId userId =
     (case upsert_participant srv db roomId userId of
        (db', Failed msg) \<Rightarrow> (db', [ConsoleError msg])
      | (db', Data u) \<Rightarrow> (db', []))"

subsection \<open>loadMessages\<close>

text \<open>
  \<open>from('messages').select(...).eq('room_id', roomId).order('created_at', { ascending: true }).limit(100)\<close>
\<close>

definition select_messages :: "backend \<Rightarrow> uuid \<Rightarrow> message_row list response" where
  "select_messages db roomId =
     request db Messages
       (take 100 (order_asc m_created_at (filter (\<lambda>m. m_room_id m = roomId) (t_messages db))))"

text \<open>\<open>from('profiles').select('display_name, avatar_url').eq('user_id', userId).single()\<close>\<close>

definition select_profile :: "backend \<Rightarrow> uuid \<Rightarrow> profile_row response" where
  "select_profile db userId =
     single (request db Profiles (filter (\<lambda>p. pr_user_id p = userId) (t_profiles db)))"

text \<open>\<open>{ ...message, profiles: profile || { display_name: 'Anonymous', avatar_url: null } }\<close>\<close>

definition with_profile :: "backend \<Rightarrow> message_row \<Rightarrow> message" where
  "with_profile db m =
     \<lparr>msg_id = m_id m, content = m_content m, user_id = m_user_id m, created_at = m_created_at m,
      profiles =
        (case select_profile db (m_user_id m) of
           Data p \<Rightarrow> \<lparr>display_name = pr_display_name p, avatar_url = pr_avatar_url p\<rparr>
         | Failed msg \<Rightarrow> \<lparr>display_name = Some (ascii ''Anonymous''), avatar_url = None\<rparr>)\<rparr>"

definition loadMessages :: "backend \<Rightarrow> uuid \<Rightarrow> chat_state \<Rightarrow> chat_state \<times> effect list" where
  "loadMessages db roomId st =
     (case select_messages db roomId of
        Failed msg \<Rightarrow> (st, [ConsoleError msg])
      | Data rows \<Rightarrow> (st\<lparr>messages := map (with_profile db) rows\<rparr>, []))"

subsection \<open>The subscription to new messages\<close>

text \<open>\<open>from('messages').select('id, content, user_id, created_at').eq('id', id).single()\<close>\<close>

definition select_message :: "backend \<Rightarrow> uuid \<Rightarrow> message_row response" where
  "select_message db ident =
     single (request db Messages (filter (\<lambda>m. m_id m = ident) (t_messages db)))"

text \<open>
  The handler of an INSERT event on the room's messages: the new row is fetched by its id
  and, when found, put with its profile at the end of the transcript.
\<close>

definition onMessageInsert :: "backend \<Rightarrow> uuid \<Rightarrow> chat_state \<Rightarrow> chat_state" where
  "onMessageInsert db ident st =
     (case select_message db ident of
        Failed msg \<Rightarrow> st
      | Data m \<Rightarrow> st\<lparr>messages := messages st @ [with_profile db m]\<rparr>)"

subsection \<open>The transcript in the words of the specification\<close>

text \<open>
  The words of the specification, to compare \<open>loadMessages\<close> with: the log of a room is
  its stored messages in creation-time order, and the most recent \<open>k\<close> of a log are its
  last \<open>k\<close> entries.
\<close>

definition message_log :: "backend \<Rightarrow> uuid \<Rightarrow> message_row list" where
  "message_log db roomId =
     sort_key m_created_at (filter (\<lambda>m. m_room_id m = roomId) (t_messages db))"

definition most_recent :: "nat \<Rightarrow> 'a list \<Rightarrow> 'a list" where
  "most_recent k xs = drop (length xs - k) xs"

subsection \<open>sendMessage\<close>

text \<open>\<open>supabase.from('messages').insert({ room_id, user_id, content, message_type })\<close>\<close>

definition insert_message ::
  "server \<Rightarrow> backend \<Rightarrow> uuid \<Rightarrow> uuid \<Rightarrow> jsstring \<Rightarrow> jsstring \<Rightarrow> backend \<times> unit response" where
  "insert_message srv db roomId userId text type =
     (case request db Messages () of
        Failed msg \<Rightarrow> (db, Failed msg)
      | Data u \<Rightarrow>
          (db\<lparr>t_messages := t_messages db @
              [\<lparr>m_id = fresh_id srv, m_room_id = roomId, m_user_id = userId, m_content = text,
                m_message_type = Some type, m_created_at = now srv\<rparr>]\<rparr>,
           Data ()))"

text \<open>
  \<open>sendMessage\<close>: returns without a request when the trimmed draft is empty or no room or
  user is set; otherwise inserts the trimmed draft and clears the draft only when the insert
  reported no error. A reported error is thrown, caught and shown as a toast. The
  transcript \<open>messages\<close> is not written here: a sent message arrives through the subscription.
\<close>

definition sendMessage ::
  "server \<Rightarrow> backend \<Rightarrow> chat_state \<Rightarrow> backend \<times> chat_state \<times> effect list" where
  "sendMessage srv db st =
     (if trim (newMessage st) = [] then (db, st, [])
      else case room st of
        None \<Rightarrow> (db, st, [])
      | Some r \<Rightarrow>
          (case currentUser st of
             None \<Rightarrow> (db, st, [])
           | Some u \<Rightarrow>
               (case insert_message srv db (r_id r) u (trim (newMessage st)) (ascii ''text'') of
                  (db', Failed msg) \<Rightarrow>
                    (db', st, [ShowToast (ascii ''Failed to send message'') msg Destructive])
                | (db', Data v) \<Rightarrow> (db', st\<lparr>newMessage := []\<rparr>, []))))"

section \<open>Dashboard page\<close>

text \<open>
  A number of the runtime, as far as the Max Participants field can hold one: NaN, an
  integer that is a double, or an infinity.
\<close>

datatype jsnumber = NaN | Num int | PosInfinity | NegInfinity

record new_room =
  name :: jsstring
  description :: jsstring
  password :: jsstring
  maxParticipants :: jsnumber

record dashboard_state = page_state +
  newRoom :: new_room
  showCreateRoom :: bool
  joinRoomCode :: jsstring
  joinRoomPassword :: jsstring

definition initial_newRoom :: new_room where
  "initial_newRoom = \<lparr>name = [], description = [], password = [], maxParticipants = Num 50\<rparr>"

subsection \<open>The Max Participants field\<close>

text \<open>
  \<open>parseInt\<close> with no radix: leading whitespace, an optional sign, an optional \<open>0x\<close> or
  \<open>0X\<close> that switches to base 16, then the longest run of digits, none giving NaN. The
  integer the digits denote becomes a double: itself below \<open>2^53\<close>, otherwise rounded to 53
  significant bits, ties to even, and an infinity from \<open>2^1024 - 2^970\<close> on. (The language
  lets a runtime zero the decimal digits after the 20th before rounding; that is not done
  here.)
\<close>

definition digit_value :: "nat \<Rightarrow> jschar \<Rightarrow> nat option" where
  "digit_value radix c =
     (let v = (if 0x30 \<le> c \<and> c \<le> 0x39 then unat c - 48
               else if 0x61 \<le> c \<and> c \<le> 0x7A then unat c - 87
               else if 0x41 \<le> c \<and> c \<le> 0x5A then unat c - 55
               else 36)
      in if v < radix then Some v else None)"

definition digits_value :: "nat \<Rightarrow> jsstring \<Rightarrow> nat" where
  "digits_value radix ds =
     foldl (\<lambda>acc c. acc * radix + (case digit_value radix c of Some v \<Rightarrow> v | None \<Rightarrow> 0)) 0 ds"

text \<open>The nearest double of a natural number; \<open>None\<close> is infinity.\<close>

definition to_double :: "nat \<Rightarrow> nat option" where
  "to_double n =
     (if n < 2 ^ 53 then Some n
      else if 2 ^ 1024 \<le> n then None
      else
        (let s = length (takeWhile (\<lambda>k. 2 ^ 53 \<le> n div 2 ^ k) [0..<972]);
             q = n div 2 ^ s;
             r = n mod 2 ^ s;
             half = 2 ^ (s - 1);
             q' = (if half < r \<or> (r = half \<and> odd q) then q + 1 else q)
         in if 2 ^ 1024 \<le> q' * 2 ^ s then None else Some (q' * 2 ^ s)))"

definition parseInt :: "jsstring \<Rightarrow> jsnumber" where
  "parseInt s =
     (let s1 = dropWhile is_whitespace s;
          negative = (s1 \<noteq> [] \<and> hd s1 = 0x2D);
          s2 = (if s1 \<noteq> [] \<and> (hd s1 = 0x2D \<or> hd s1 = 0x2B) then tl s1 else s1);
          hex = (2 \<le> length s2 \<and> s2 ! 0 = 0x30 \<and> (s2 ! 1 = 0x78 \<or> s2 ! 1 = 0x58));
          radix = (if hex then 16 else 10);
          s3 = (if hex then drop 2 s2 else s2);
          ds = takeWhile (\<lambda>c. digit_value radix c \<noteq> None) s3
      in if ds = [] then NaN
         else case to_double (digits_value radix ds) of
           None \<Rightarrow> if negative then NegInfinity else PosInfinity
         | Some m \<Rightarrow> Num ((if negative then - 1 else 1) * int m))"

text \<open>
  The field's \<open>onChange\<close>: \<open>maxParticipants: parseInt(e.target.value) || 50\<close>. NaN and 0 are
  falsy. The field's \<open>min="2"\<close> and \<open>max="100"\<close> attributes do not act on what is typed.
\<close>

definition setMaxParticipants :: "jsstring \<Rightarrow> dashboard_state \<Rightarrow> dashboard_state" where
  "setMaxParticipants v st =
     st\<lparr>newRoom := (newRoom st)\<lparr>maxParticipants :=
       (case parseInt v of
          NaN \<Rightarrow> Num 50
        | Num n \<Rightarrow> if n = 0 then Num 50 else Num n
        | PosInfinity \<Rightarrow> PosInfinity
        | NegInfinity \<Rightarrow> NegInfinity)\<rparr>\<rparr>"

definition setName :: "jsstring \<Rightarrow> dashboard_state \<Rightarrow> dashboard_state" where
  "setName v st = st\<lparr>newRoom := (newRoom st)\<lparr>name := v\<rparr>\<rparr>"

subsection \<open>hashPassword\<close>

text \<open>
  \<open>TextEncoder.encode\<close> and \<open>crypto.subtle.digest('SHA-256', _)\<close> belong to the platform
  and are parameters here; the hexadecimal rendering of the digest is the sources' own.
\<close>

definition hex_digit :: "nat \<Rightarrow> jschar" where
  "hex_digit d = (if d < 10 then of_nat (48 + d) else of_nat (87 + d))"

text \<open>\<open>b.toString(16)\<close> for a byte: one or two lower-case digits.\<close>

definition toString16 :: "byte \<Rightarrow> jsstring" where
  "toString16 b =
     (if unat b < 16 then [hex_digit (unat b)]
      else [hex_digit (unat b div 16), hex_digit (unat b mod 16)])"

definition padStart :: "nat \<Rightarrow> jschar \<Rightarrow> jsstring \<Rightarrow> jsstring" where
  "padStart n c s = replicate (n - length s) c @ s"

definition hashPassword ::
  "(jsstring \<Rightarrow> byte list) \<Rightarrow> (byte list \<Rightarrow> byte list) \<Rightarrow> jsstring \<Rightarrow> jsstring" where
  "hashPassword encode digest pw =
     concat (map (\<lambda>b. padStart 2 0x30 (toString16 b)) (digest (encode pw)))"

text \<open>The code units \<open>0\<close> to \<open>9\<close> and \<open>a\<close> to \<open>f\<close>.\<close>

definition is_lower_hex :: "jschar \<Rightarrow> bool" where
  "is_lower_hex c \<longleftrightarrow> (0x30 \<le> c \<and> c \<le> 0x39) \<or> (0x61 \<le> c \<and> c \<le> 0x66)"

subsection \<open>createRoom\<close>

text \<open>A number in the JSON body of a request: NaN and the infinities are sent as null.\<close>

definition json_number :: "jsnumber \<Rightarrow> int option" where
  "json_number x = (case x of Num n \<Rightarrow> Some n | _ \<Rightarrow> None)"

text \<open>
  \<open>from('chat_rooms').insert([roomData]).select().single()\<close>. The server fills in \<open>id\<close>,
  \<open>room_code\<close>, \<open>created_at\<close> and \<open>is_active\<close>.
\<close>

definition insert_room ::
  "server \<Rightarrow> backend \<Rightarrow> jsstring \<Rightarrow> jsstring option \<Rightarrow> uuid \<Rightarrow> bool \<Rightarrow> jsstring option
     \<Rightarrow> int option \<Rightarrow> backend \<times> room_row response" where
  "insert_room srv db nm descr creator protected hash capacity =
     (let row = \<lparr>r_id = fresh_id srv, r_name = nm, r_room_code = issued_room_code srv,
                 r_description = descr, r_created_by = creator, r_created_at = now srv,
                 r_is_active = default_is_active srv,
                 r_is_password_protected = Some protected,
                 r_password_hash = hash, r_max_participants = capacity\<rparr>
      in case request db ChatRooms row of
           Failed msg \<Rightarrow> (db, Failed msg)
         | Data r \<Rightarrow> (db\<lparr>t_chat_rooms := t_chat_rooms db @ [r]\<rparr>, Data r))"

text \<open>
  \<open>createRoom\<close>. A blank name is refused before anything is sent. Reading \<open>currentUser.id\<close>
  of a missing user throws, which ends in the same toast as a failed insert. The closing
  \<open>loadRooms()\<close> is not awaited and only refreshes the room list, which is not part of
  this state.
\<close>

definition room_created_text :: "room_row \<Rightarrow> jsstring" where
  "room_created_text r =
     ascii ''Room '' @ [0x22] @ r_name r @ [0x22] @ ascii '' created successfully! Room code: ''
       @ r_room_code r"

definition createRoom ::
  "(jsstring \<Rightarrow> byte list) \<Rightarrow> (byte list \<Rightarrow> byte list) \<Rightarrow> server \<Rightarrow> backend \<Rightarrow> dashboard_state
     \<Rightarrow> backend \<times> dashboard_state \<times> effect list" where
  "createRoom encode digest srv db st =
     (if trim (name (newRoom st)) = []
      then (db, st, [ShowToast (ascii ''Error'') (ascii ''Room name is required'') Destructive])
      else case currentUser st of
        None \<Rightarrow>
          (db, st,
           [ShowToast (ascii ''Failed to create room'')
              (ascii ''Cannot read properties of null (reading 'id')'') Destructive])
      | Some u \<Rightarrow>
          (case insert_room srv db
                  (trim (name (newRoom st)))
                  (if trim (description (newRoom st)) = [] then None
                   else Some (trim (description (newRoom st))))
                  u
                  (password (newRoom st) \<noteq> [])
                  (if password (newRoom st) \<noteq> []
                   then Some (hashPassword encode digest (password (newRoom st))) else None)
                  (json_number (maxParticipants (newRoom st))) of
             (db', Failed msg) \<Rightarrow>
               (db', st, [ShowToast (ascii ''Failed to create room'') msg Destructive])
           | (db', Data r) \<Rightarrow>
               (db', st\<lparr>showCreateRoom := False, newRoom := initial_newRoom\<rparr>,
                [ShowToast (ascii ''Room Created'') (room_created_text r) Default])))"

subsection \<open>joinRoom\<close>

text \<open>
  \<open>from('room_participants').select('*', { count: 'exact' }).eq('room_id', id).eq('is_active', true)\<close>;
  \<open>None\<close> is the \<open>count = null\<close> of a failed request.
\<close>

definition count_active :: "backend \<Rightarrow> uuid \<Rightarrow> nat option" where
  "count_active db roomId =
     (case request db RoomParticipants
             (length (filter (\<lambda>p. p_room_id p = roomId \<and> p_is_active p = Some True)
                (t_room_participants db))) of
        Data n \<Rightarrow> Some n
      | Failed msg \<Rightarrow> None)"

text \<open>\<open>from('chat_rooms').select('*').eq('room_code', code).eq('is_active', true).single()\<close>\<close>

definition select_room :: "backend \<Rightarrow> jsstring \<Rightarrow> room_row response" where
  "select_room db code =
     single (request db ChatRooms
       (filter (\<lambda>r. r_room_code r = code \<and> r_is_active r = Some True) (t_chat_rooms db)))"

text \<open>
  \<open>count && count >= room.max_participants\<close>: a null or zero count is falsy, and a null
  \<open>max_participants\<close> compares as 0.
\<close>

definition room_full :: "nat option \<Rightarrow> room_row \<Rightarrow> bool" where
  "room_full count r =
     (case count of
        None \<Rightarrow> False
      | Some n \<Rightarrow> n \<noteq> 0 \<and> (case r_max_participants r of None \<Rightarrow> 0 | Some c \<Rightarrow> c) \<le> int n)"

text \<open>
  The check of a room's card in the list, which disables its Join button:
  \<open>(room.participant_count || 0) >= room.max_participants\<close>, where \<open>loadRooms\<close> has set
  \<open>participant_count: count || 0\<close>.
\<close>

definition room_card_full :: "nat option \<Rightarrow> room_row \<Rightarrow> bool" where
  "room_card_full count r \<longleftrightarrow>
     (case r_max_participants r of None \<Rightarrow> 0 | Some c \<Rightarrow> c)
       \<le> int (case count of None \<Rightarrow> 0 | Some n \<Rightarrow> n)"

text \<open>
  The dashboard's \<open>joinRoom\<close>, in the order of the source: the code must not be blank, the
  upper-cased code must select exactly one active room, a protected room needs a non-empty
  password (which is not compared with anything), and the room must not be full. It writes
  neither the backend nor the state. \<open>toUpperCase\<close> is the runtime's and a parameter here.
\<close>

definition joinRoom :: "(jsstring \<Rightarrow> jsstring) \<Rightarrow> backend \<Rightarrow> dashboard_state \<Rightarrow> effect list" where
  "joinRoom toUpperCase db st =
     (if trim (joinRoomCode st) = []
      then [ShowToast (ascii ''Error'') (ascii ''Room code is required'') Destructive]
      else case select_room db (toUpperCase (joinRoomCode st)) of
        Failed msg \<Rightarrow>
          [ShowToast (ascii ''Room not found'')
             (ascii ''Invalid room code or room is inactive'') Destructive]
      | Data r \<Rightarrow>
          if r_is_password_protected r = Some True \<and> joinRoomPassword st = []
          then [ShowToast (ascii ''Password required'')
                  (ascii ''This room requires a password'') Destructive]
          else if room_full (count_active db (r_id r)) r
          then [ShowToast (ascii ''Room full'')
                  (ascii ''This room has reached its maximum capacity'') Destructive]
          else [Navigate (ascii ''/chat/'' @ r_room_code r)])"

section \<open>Admin panel\<close>




section \<open>Sample data\<close>

definition sample_server :: server where
  "sample_server =
     \<lparr>fresh_id = 900, now = 1000, issued_room_code = ascii ''ZX81'',
      default_is_active = Some True\<rparr>"

definition sample_room :: room_row where
  "sample_room =
     \<lparr>r_id = 11, r_name = ascii ''Design Sync'', r_room_code = ascii ''AB12'',
      r_description = None, r_created_by = 7, r_created_at = 10, r_is_active = Some True,
      r_is_password_protected = Some False, r_password_hash = None,
      r_max_participants = Some 2\<rparr>"

definition locked_room :: room_row where
  "locked_room =
     \<lparr>r_id = 12, r_name = ascii ''Board'', r_room_code = ascii ''LOCK'',
      r_description = None, r_created_by = 8, r_created_at = 11, r_is_active = Some True,
      r_is_password_protected = Some True, r_password_hash = Some (ascii ''06ab''),
      r_max_participants = Some 3\<rparr>"

definition odd_room :: room_row where
  "odd_room =
     \<lparr>r_id = 13, r_name = ascii ''Void'', r_room_code = ascii ''ZERO'',
      r_description = None, r_created_by = 8, r_created_at = 12, r_is_active = Some True,
      r_is_password_protected = Some False, r_password_hash = None,
      r_max_participants = Some (- 1)\<rparr>"

definition sample_backend :: backend where
  "sample_backend =
     \<lparr>t_chat_rooms = [sample_room, locked_room],
      t_room_participants =
        [\<lparr>p_id = 30, p_room_id = 11, p_user_id = 7, p_is_active = Some True, p_joined_at = 10\<rparr>,
         \<lparr>p_id = 31, p_room_id = 11, p_user_id = 8, p_is_active = Some True, p_joined_at = 11\<rparr>,
         \<lparr>p_id = 32, p_room_id = 11, p_user_id = 9, p_is_active = Some False, p_joined_at = 12\<rparr>,
         \<lparr>p_id = 33, p_room_id = 12, p_user_id = 7, p_is_active = Some True, p_joined_at = 13\<rparr>],
      t_messages =
        [\<lparr>m_id = 21, m_room_id = 11, m_user_id = 8, m_content = ascii ''second'',
          m_message_type = Some (ascii ''text''), m_created_at = 12\<rparr>,
         \<lparr>m_id = 20, m_room_id = 11, m_user_id = 7, m_content = ascii ''first'',
          m_message_type = Some (ascii ''text''), m_created_at = 11\<rparr>,
         \<lparr>m_id = 22, m_room_id = 12, m_user_id = 7, m_content = ascii ''elsewhere'',
          m_message_type = Some (ascii ''text''), m_created_at = 5\<rparr>],
      t_profiles =
        [\<lparr>pr_user_id = 7, pr_display_name = Some (ascii ''Ada''), pr_avatar_url = None\<rparr>],
      t_verification_images = [],
      t_verification_audio = [],
      t_location_tracking = [],
      faults = []\<rparr>"

definition sample_chat :: chat_state where
  "sample_chat =
     \<lparr>currentUser = Some 7, messages = [], newMessage = ascii ''  hello there '',
      room = Some sample_room\<rparr>"



definition busy_backend :: backend where
  "busy_backend =
     sample_backend
       \<lparr>t_messages :=
          map (\<lambda>i. \<lparr>m_id = i, m_room_id = 11, m_user_id = 7, m_content = ascii ''hi'',
                     m_message_type = Some (ascii ''text''), m_created_at = i\<rparr>) [0..<101]\<rparr>"

definition later_backend :: backend where
  "later_backend =
     busy_backend
       \<lparr>t_messages := t_messages busy_backend @
          [\<lparr>m_id = 101, m_room_id = 11, m_user_id = 7, m_content = ascii ''new'',
            m_message_type = Some (ascii ''text''), m_created_at = 101\<rparr>]\<rparr>"

definition sample_dashboard :: dashboard_state where
  "sample_dashboard =
     \<lparr>currentUser = Some 7,
      newRoom = \<lparr>name = ascii ''Design Sync '', description = ascii '' '',
                 password = ascii ''s3cret'', maxParticipants = Num 2\<rparr>,
      showCreateRoom = True, joinRoomCode = ascii ''ab12'', joinRoomPassword = []\<rparr>"

text \<open>
  Stand-ins for the platform functions, to run the handlers on the sample data: the encoder
  is right on ASCII, the upper-casing is right on ASCII, and the digest is a two-byte toy.
\<close>

definition toy_encode :: "jsstring \<Rightarrow> byte list" where
  "toy_encode s = map ucast s"

definition toy_digest :: "byte list \<Rightarrow> byte list" where
  "toy_digest bs = [of_nat (length bs), 0xAB]"

definition ascii_toUpperCase :: "jsstring \<Rightarrow> jsstring" where
  "ascii_toUpperCase s = map (\<lambda>c. if 0x61 \<le> c \<and> c \<le> 0x7A then c - 0x20 else c) s"

section \<open>Properties\<close>


lemma trim_empty_iff: "trim s = [] \<longleftrightarrow> (\<forall>c \<in> set s. is_whitespace c)"
proof
  assume "trim s = []"
  then have all_rest: "\<forall>c \<in> set (dropWhile is_whitespace s). is_whitespace c"
    by (simp add: trim_def)
  have "dropWhile is_whitespace s = []"
  proof (rule ccontr)
    assume ne: "dropWhile is_whitespace s \<noteq> []"
    then have "\<not> is_whitespace (hd (dropWhile is_whitespace s))"
      by (rule hd_dropWhile)
    moreover have "hd (dropWhile is_whitespace s) \<in> set (dropWhile is_whitespace s)"
      using ne by simp
    ultimately show False using all_rest by blast
  qed
  then show "\<forall>c \<in> set s. is_whitespace c"
    by simp
next
  assume "\<forall>c \<in> set s. is_whitespace c"
  then have nothing_left: "dropWhile is_whitespace s = []"
    by simp
  show "trim s = []"
    unfolding trim_def nothing_left by simp
qed

text \<open>
  C5. For a draft made only of whitespace (the empty draft included), \<open>sendMessage\<close> leaves
  the backend as it is, so no message row is stored; the page state is unchanged and nothing
  is shown.
\<close>

theorem sendMessage_blank_no_insert:
  assumes "\<forall>c \<in> set (newMessage st). is_whitespace c"
  shows "sendMessage srv db st = (db, st, [])"
  using assms by (simp add: sendMessage_def trim_empty_iff)

theorem sendMessage_blank_no_insert_witness:
  "list_all is_whitespace [0x20, 0x9, 0xA0, 0xA] \<and>
   sendMessage sample_server sample_backend (sample_chat\<lparr>newMessage := [0x20, 0x9, 0xA0, 0xA]\<rparr>) =
     (sample_backend, sample_chat\<lparr>newMessage := [0x20, 0x9, 0xA0, 0xA]\<rparr>, [])"
  using sendMessage_blank_no_insert
    [of "sample_chat\<lparr>newMessage := [0x20, 0x9, 0xA0, 0xA]\<rparr>" sample_server sample_backend]
  by (simp add: is_whitespace_def)

text \<open>
  C10. With a draft that is not blank, a room and a user: when the insert fails, the backend,
  the draft and the transcript are as before and the error is shown; when it succeeds, the
  stored row's content is the trimmed draft, the draft is cleared and the transcript is
  still not touched.
\<close>

theorem sendMessage_failure_keeps_draft:
  assumes "trim (newMessage st) \<noteq> []" and "room st = Some r" and "currentUser st = Some u"
  shows "(map_of (faults db) Messages = Some msg \<longrightarrow>
            sendMessage srv db st =
              (db, st, [ShowToast (ascii ''Failed to send message'') msg Destructive])) \<and>
         (map_of (faults db) Messages = None \<longrightarrow>
            sendMessage srv db st =
              (db\<lparr>t_messages := t_messages db @
                   [\<lparr>m_id = fresh_id srv, m_room_id = r_id r, m_user_id = u,
                     m_content = trim (newMessage st), m_message_type = Some (ascii ''text''),
                     m_created_at = now srv\<rparr>]\<rparr>,
               st\<lparr>newMessage := []\<rparr>, [])) \<and>
         messages (fst (snd (sendMessage srv db st))) = messages st"
  using assms
  by (simp add: sendMessage_def insert_message_def request_def split: option.splits)

theorem sendMessage_failure_keeps_draft_witness:
  "trim (newMessage sample_chat) \<noteq> [] \<and>
   sendMessage sample_server (sample_backend\<lparr>faults := [(Messages, ascii ''offline'')]\<rparr>) sample_chat =
     (sample_backend\<lparr>faults := [(Messages, ascii ''offline'')]\<rparr>, sample_chat,
      [ShowToast (ascii ''Failed to send message'') (ascii ''offline'') Destructive]) \<and>
   t_messages (fst (sendMessage sample_server sample_backend sample_chat)) =
     t_messages sample_backend @
       [\<lparr>m_id = 900, m_room_id = 11, m_user_id = 7, m_content = ascii ''hello there'',
         m_message_type = Some (ascii ''text''), m_created_at = 1000\<rparr>] \<and>
   newMessage (fst (snd (sendMessage sample_server sample_backend sample_chat))) = []"
proof -
  have draft: "trim (newMessage sample_chat) = ascii ''hello there''"
    by (simp add: sample_chat_def trim_def ascii_def is_whitespace_def)
  have not_blank: "trim (newMessage sample_chat) \<noteq> []"
    by (simp add: draft ascii_def)
  have in_room: "room sample_chat = Some sample_room" and signed_in: "currentUser sample_chat = Some 7"
    by (simp_all add: sample_chat_def)
  have down: "map_of (faults (sample_backend\<lparr>faults := [(Messages, ascii ''offline'')]\<rparr>)) Messages
      = Some (ascii ''offline'')"
    by simp
  have up: "map_of (faults sample_backend) Messages = None"
    by (simp add: sample_backend_def)
  show ?thesis
    using sendMessage_failure_keeps_draft [OF not_blank in_room signed_in,
        of "sample_backend\<lparr>faults := [(Messages, ascii ''offline'')]\<rparr>" "ascii ''offline''" sample_server]
      sendMessage_failure_keeps_draft [OF not_blank in_room signed_in,
        of sample_backend "ascii ''offline''" sample_server]
      down up not_blank
    by (simp add: draft sample_server_def sample_room_def)
qed

subsection \<open>createRoom\<close>

text \<open>
  C6. \<open>createRoom\<close> with an empty name (or a name of whitespace only) shows the
  "Room name is required" error and returns the backend and the state as they were: no
  room row is stored.
\<close>

theorem createRoom_blank_name:
  assumes "\<forall>c \<in> set (name (newRoom st)). is_whitespace c"
  shows "createRoom encode digest srv db st =
           (db, st, [ShowToast (ascii ''Error'') (ascii ''Room name is required'') Destructive])"
  using assms by (simp add: createRoom_def trim_empty_iff)

theorem createRoom_blank_name_witness:
  "list_all is_whitespace (name initial_newRoom) \<and>
   createRoom toy_encode toy_digest sample_server sample_backend
       (sample_dashboard\<lparr>newRoom := initial_newRoom\<rparr>) =
     (sample_backend, sample_dashboard\<lparr>newRoom := initial_newRoom\<rparr>,
      [ShowToast (ascii ''Error'') (ascii ''Room name is required'') Destructive])"
  using createRoom_blank_name
    [of "sample_dashboard\<lparr>newRoom := initial_newRoom\<rparr>" toy_encode toy_digest sample_server
        sample_backend]
  by (simp add: initial_newRoom_def)

text \<open>What a successful \<open>createRoom\<close> appends to \<open>chat_rooms\<close>.\<close>

lemma createRoom_persists:
  assumes "trim (name (newRoom st)) \<noteq> []" and "currentUser st = Some u"
    and "map_of (faults db) ChatRooms = None"
  shows "t_chat_rooms (fst (createRoom encode digest srv db st)) =
           t_chat_rooms db @
             [\<lparr>r_id = fresh_id srv, r_name = trim (name (newRoom st)),
               r_room_code = issued_room_code srv,
               r_description =
                 (if trim (description (newRoom st)) = [] then None
                  else Some (trim (description (newRoom st)))),
               r_created_by = u, r_created_at = now srv, r_is_active = default_is_active srv,
               r_is_password_protected = Some (password (newRoom st) \<noteq> []),
               r_password_hash =
                 (if password (newRoom st) = [] then None
                  else Some (hashPassword encode digest (password (newRoom st)))),
               r_max_participants = json_number (maxParticipants (newRoom st))\<rparr>]"
  using assms
  by (simp add: createRoom_def insert_room_def request_def Let_def)

text \<open>The rendering of a digest: two lower-case hexadecimal digits per byte.\<close>

lemma length_hex_byte: "length (padStart 2 0x30 (toString16 b)) = 2"
  by (simp add: padStart_def toString16_def)

lemma length_hex_bytes:
  "length (concat (map (\<lambda>b. padStart 2 0x30 (toString16 b)) bs)) = 2 * length bs"
  by (induction bs) (simp_all add: length_hex_byte)

lemma length_hashPassword:
  "length (hashPassword encode digest pw) = 2 * length (digest (encode pw))"
  by (simp add: hashPassword_def length_hex_bytes)

lemma hex_digit_lower_hex: "d < 16 \<Longrightarrow> is_lower_hex (hex_digit d)"
proof -
  assume "d < 16"
  then have "d \<in> set [0..<16]" by simp
  then show ?thesis
    unfolding is_lower_hex_def hex_digit_def
    by (simp add: upt_rec) (elim disjE; simp)
qed

lemma hex_byte_lower_hex: "list_all is_lower_hex (padStart 2 0x30 (toString16 b))"
proof -
  have "unat b < 256"
    using unsigned_less [of b, where ?'a = nat] by simp
  then have small: "unat b div 16 < 16"
    by simp
  have zero: "is_lower_hex 0x30" by (simp add: is_lower_hex_def)
  show ?thesis
    using small zero
    by (simp add: padStart_def toString16_def hex_digit_lower_hex)
qed

lemma hex_bytes_lower_hex:
  "list_all is_lower_hex (concat (map (\<lambda>b. padStart 2 0x30 (toString16 b)) bs))"
  by (induction bs) (simp_all add: hex_byte_lower_hex)

lemma hashPassword_lower_hex: "list_all is_lower_hex (hashPassword encode digest pw)"
  by (simp add: hashPassword_def hex_bytes_lower_hex)

text \<open>
  C8. The capacity that \<open>createRoom\<close> stores is the number in the form state, whatever it
  is: typing 1 into the Max Participants field and creating a room named Solo stores a room
  of capacity 1.
\<close>

theorem createRoom_capacity_one:
  "setMaxParticipants (ascii ''1'') (setName (ascii ''Solo'') sample_dashboard) =
     sample_dashboard\<lparr>newRoom := (newRoom sample_dashboard)\<lparr>name := ascii ''Solo'', maxParticipants := Num 1\<rparr>\<rparr> \<and>
   r_max_participants (last (t_chat_rooms (fst (createRoom encode digest sample_server sample_backend
       (setMaxParticipants (ascii ''1'') (setName (ascii ''Solo'') sample_dashboard)))))) =
     Some 1"
proof -
  define st where "st = setMaxParticipants (ascii ''1'') (setName (ascii ''Solo'') sample_dashboard)"
  have typed: "parseInt (ascii ''1'') = Num 1"
    by (simp add: parseInt_def ascii_def is_whitespace_def digit_value_def digits_value_def
        to_double_def Let_def)
  have st: "st =
     sample_dashboard\<lparr>newRoom := (newRoom sample_dashboard)\<lparr>name := ascii ''Solo'', maxParticipants := Num 1\<rparr>\<rparr>"
    by (simp add: st_def setMaxParticipants_def setName_def typed)
  have "trim (ascii ''Solo'') = ascii ''Solo''"
    by (simp add: trim_def ascii_def is_whitespace_def)
  then have named: "trim (name (newRoom st)) \<noteq> []"
    by (simp add: st) (simp add: ascii_def)
  have user: "currentUser st = Some 7"
    by (simp add: st sample_dashboard_def)
  have up: "map_of (faults sample_backend) ChatRooms = None"
    by (simp add: sample_backend_def)
  have "r_max_participants (last (t_chat_rooms (fst (createRoom encode digest sample_server sample_backend st)))) =
     Some 1"
    using createRoom_persists [OF named user up, of encode digest sample_server]
    by (simp add: st json_number_def)
  then show ?thesis
    using st by (simp add: st_def)
qed

subsection \<open>joinRoom on the dashboard\<close>

text \<open>A room that the lookup returns is an active row of the table with that code.\<close>

lemma single_Data: "single x = Data r \<longleftrightarrow> x = Data [r]"
  by (cases x rule: single.cases) simp_all

lemma select_room_active:
  assumes "select_room db code = Data r"
  shows "r \<in> set (t_chat_rooms db) \<and> r_room_code r = code \<and> r_is_active r = Some True"
proof -
  let ?rows = "filter (\<lambda>r. r_room_code r = code \<and> r_is_active r = Some True) (t_chat_rooms db)"
  from assms have "request db ChatRooms ?rows = Data [r]"
    by (simp add: select_room_def single_Data)
  then have "?rows = [r]"
    by (simp add: request_def split: option.splits)
  then have "r \<in> set ?rows" by simp
  then show ?thesis by simp
qed

lemma sample_lookup:
  "select_room sample_backend (ascii_toUpperCase (ascii ''ab12'')) = Data sample_room"
  "select_room sample_backend (ascii_toUpperCase (ascii ''lock'')) = Data locked_room"
  by (simp_all add: select_room_def request_def sample_backend_def sample_room_def locked_room_def
      ascii_toUpperCase_def ascii_def)

lemma sample_counts:
  "count_active sample_backend (r_id sample_room) = Some 2"
  "count_active sample_backend (r_id locked_room) = Some 1"
  by (simp_all add: count_active_def request_def sample_backend_def sample_room_def
      locked_room_def)

text \<open>
  C2. When the lookup finds a password-protected room: with no password typed the join is
  refused with "Password required"; with any non-empty password the outcome is that of the
  capacity check alone. Neither the typed password nor the stored hash is read after that.
\<close>

theorem joinRoom_password_gate:
  assumes "trim (joinRoomCode st) \<noteq> []"
    and "select_room db (toUpperCase (joinRoomCode st)) = Data r"
    and "r_is_password_protected r = Some True"
  shows "(joinRoomPassword st = [] \<longrightarrow>
            joinRoom toUpperCase db st =
              [ShowToast (ascii ''Password required'') (ascii ''This room requires a password'')
                 Destructive]) \<and>
         (joinRoomPassword st \<noteq> [] \<longrightarrow>
            joinRoom toUpperCase db st =
              (if room_full (count_active db (r_id r)) r
               then [ShowToast (ascii ''Room full'')
                       (ascii ''This room has reached its maximum capacity'') Destructive]
               else [Navigate (ascii ''/chat/'' @ r_room_code r)]))"
  using assms by (simp add: joinRoom_def)

theorem joinRoom_password_gate_witness:
  "select_room sample_backend (ascii_toUpperCase (ascii ''lock'')) = Data locked_room \<and>
   r_is_password_protected locked_room = Some True \<and>
   joinRoom ascii_toUpperCase sample_backend (sample_dashboard\<lparr>joinRoomCode := ascii ''lock''\<rparr>) =
     [ShowToast (ascii ''Password required'') (ascii ''This room requires a password'') Destructive] \<and>
   joinRoom ascii_toUpperCase sample_backend
       (sample_dashboard\<lparr>joinRoomCode := ascii ''lock'', joinRoomPassword := ascii ''wrong''\<rparr>) =
     [Navigate (ascii ''/chat/LOCK'')]"
proof -
  let ?none = "sample_dashboard\<lparr>joinRoomCode := ascii ''lock''\<rparr>"
  let ?some = "sample_dashboard\<lparr>joinRoomCode := ascii ''lock'', joinRoomPassword := ascii ''wrong''\<rparr>"
  have code: "trim (ascii ''lock'') \<noteq> []"
    by (simp add: trim_def ascii_def is_whitespace_def)
  have c1: "trim (joinRoomCode ?none) \<noteq> []" and c2: "trim (joinRoomCode ?some) \<noteq> []"
    using code by simp_all
  have l1: "select_room sample_backend (ascii_toUpperCase (joinRoomCode ?none)) = Data locked_room"
    and l2: "select_room sample_backend (ascii_toUpperCase (joinRoomCode ?some)) = Data locked_room"
    by (simp_all add: sample_lookup)
  have prot: "r_is_password_protected locked_room = Some True"
    by (simp add: locked_room_def)
  have pw1: "joinRoomPassword ?none = []" by (simp add: sample_dashboard_def)
  have pw2: "joinRoomPassword ?some \<noteq> []" by (simp add: ascii_def)
  have free: "\<not> room_full (count_active sample_backend (r_id locked_room)) locked_room"
    by (simp add: sample_counts room_full_def) (simp add: locked_room_def)
  have path: "ascii ''/chat/'' @ r_room_code locked_room = ascii ''/chat/LOCK''"
    by (simp add: locked_room_def ascii_def)
  show ?thesis
    using joinRoom_password_gate [where toUpperCase = ascii_toUpperCase, OF c1 l1 prot]
      joinRoom_password_gate [where toUpperCase = ascii_toUpperCase, OF c2 l2 prot]
      pw1 pw2 free path prot sample_lookup(2)
    by simp
qed

text \<open>
  Where the capacity check agrees with \<open>M < C\<close>: the count request reports \<open>M\<close> and the
  capacity is at least 1.
\<close>

lemma joinRoom_capacity_positive:
  assumes "trim (joinRoomCode st) \<noteq> []"
    and "select_room db (toUpperCase (joinRoomCode st)) = Data r"
    and "r_is_password_protected r = Some True \<longrightarrow> joinRoomPassword st \<noteq> []"
    and "count_active db (r_id r) = Some M"
    and "r_max_participants r = Some C"
    and "1 \<le> C"
  shows "joinRoom toUpperCase db st =
           (if int M < C then [Navigate (ascii ''/chat/'' @ r_room_code r)]
            else [ShowToast (ascii ''Room full'')
                    (ascii ''This room has reached its maximum capacity'') Destructive])"
  using assms by (auto simp add: joinRoom_def room_full_def)

lemma joinRoom_capacity_sample:
  "select_room sample_backend (ascii_toUpperCase (ascii ''ab12'')) = Data sample_room \<and>
   count_active sample_backend (r_id sample_room) = Some 2 \<and>
   r_max_participants sample_room = Some 2 \<and>
   joinRoom ascii_toUpperCase sample_backend sample_dashboard =
     [ShowToast (ascii ''Room full'') (ascii ''This room has reached its maximum capacity'')
        Destructive] \<and>
   count_active sample_backend (r_id locked_room) = Some 1 \<and>
   r_max_participants locked_room = Some 3 \<and>
   joinRoom ascii_toUpperCase sample_backend
       (sample_dashboard\<lparr>joinRoomCode := ascii ''lock'', joinRoomPassword := ascii ''wrong''\<rparr>) =
     [Navigate (ascii ''/chat/LOCK'')]"
proof -
  let ?some = "sample_dashboard\<lparr>joinRoomCode := ascii ''lock'', joinRoomPassword := ascii ''wrong''\<rparr>"
  have c1: "trim (joinRoomCode sample_dashboard) \<noteq> []"
    by (simp add: sample_dashboard_def trim_def ascii_def is_whitespace_def)
  have c2: "trim (joinRoomCode ?some) \<noteq> []"
    by (simp add: trim_def ascii_def is_whitespace_def)
  have l1: "select_room sample_backend (ascii_toUpperCase (joinRoomCode sample_dashboard)) = Data sample_room"
    by (simp add: sample_lookup sample_dashboard_def)
  have l2: "select_room sample_backend (ascii_toUpperCase (joinRoomCode ?some)) = Data locked_room"
    by (simp add: sample_lookup)
  have g1: "r_is_password_protected sample_room = Some True \<longrightarrow> joinRoomPassword sample_dashboard \<noteq> []"
    by (simp add: sample_room_def)
  have g2: "r_is_password_protected locked_room = Some True \<longrightarrow> joinRoomPassword ?some \<noteq> []"
    by (simp add: ascii_def)
  have n1: "count_active sample_backend (r_id sample_room) = Some 2"
    by (simp add: sample_counts)
  have n2: "count_active sample_backend (r_id locked_room) = Some 1"
    by (simp add: sample_counts)
  have m1: "r_max_participants sample_room = Some 2" by (simp add: sample_room_def)
  have m2: "r_max_participants locked_room = Some 3" by (simp add: locked_room_def)
  have path: "ascii ''/chat/'' @ r_room_code locked_room = ascii ''/chat/LOCK''"
    by (simp add: locked_room_def ascii_def)
  show ?thesis
    using joinRoom_capacity_positive [where toUpperCase = ascii_toUpperCase, OF c1 l1 g1 n1 m1]
      joinRoom_capacity_positive [where toUpperCase = ascii_toUpperCase, OF c2 l2 g2 n2 m2]
      n1 n2 m1 m2 path sample_lookup(1)
    by simp
qed

lemma setMaxParticipants_minus_one:
  "maxParticipants (newRoom (setMaxParticipants (ascii ''-1'') st)) = Num (- 1)"
  by (simp add: setMaxParticipants_def parseInt_def ascii_def is_whitespace_def digit_value_def
      digits_value_def to_double_def Let_def)

text \<open>
  C3. The join is to succeed exactly when the room's active members \<open>M\<close> are fewer than
  its capacity \<open>C\<close>. \<open>joinRoom\<close> departs from that where its count is falsy. When
  the count request fails, the count is null and the room is entered: here a room of
  capacity 2 with 2 active members. When the count is 0, the room is entered whatever its
  capacity: here an empty room of capacity \<open>-1\<close> (what the form holds after \<open>-1\<close> is typed
  into the Max Participants field), which the check of the room's card reports as full.
\<close>

theorem joinRoom_enters_full_room:
  "r_max_participants sample_room = Some 2 \<and>
   length (filter (\<lambda>p. p_room_id p = r_id sample_room \<and> p_is_active p = Some True)
      (t_room_participants sample_backend)) = 2 \<and>
   joinRoom ascii_toUpperCase
       (sample_backend\<lparr>faults := [(RoomParticipants, ascii ''timeout'')]\<rparr>) sample_dashboard =
     [Navigate (ascii ''/chat/AB12'')] \<and>
   r_max_participants odd_room = Some (- 1) \<and>
   count_active (sample_backend\<lparr>t_chat_rooms := [odd_room]\<rparr>) (r_id odd_room) = Some 0 \<and>
   room_card_full (Some 0) odd_room \<and>
   joinRoom ascii_toUpperCase (sample_backend\<lparr>t_chat_rooms := [odd_room]\<rparr>)
       (sample_dashboard\<lparr>joinRoomCode := ascii ''zero''\<rparr>) =
     [Navigate (ascii ''/chat/ZERO'')]"
proof -
  have members: "length (filter (\<lambda>p. p_room_id p = r_id sample_room \<and> p_is_active p = Some True)
      (t_room_participants sample_backend)) = 2"
    by (simp add: sample_backend_def sample_room_def)
  have no_count: "joinRoom ascii_toUpperCase
       (sample_backend\<lparr>faults := [(RoomParticipants, ascii ''timeout'')]\<rparr>) sample_dashboard =
     [Navigate (ascii ''/chat/AB12'')]"
    by (simp add: joinRoom_def select_room_def count_active_def room_full_def request_def
        sample_backend_def sample_room_def locked_room_def sample_dashboard_def
        ascii_toUpperCase_def ascii_def trim_def is_whitespace_def)
  have empty: "count_active (sample_backend\<lparr>t_chat_rooms := [odd_room]\<rparr>) (r_id odd_room) = Some 0"
    by (simp add: count_active_def request_def sample_backend_def odd_room_def)
  have card: "room_card_full (Some 0) odd_room"
    by (simp add: room_card_full_def odd_room_def)
  have zero_count: "joinRoom ascii_toUpperCase (sample_backend\<lparr>t_chat_rooms := [odd_room]\<rparr>)
       (sample_dashboard\<lparr>joinRoomCode := ascii ''zero''\<rparr>) =
     [Navigate (ascii ''/chat/ZERO'')]"
    by (simp add: joinRoom_def select_room_def count_active_def room_full_def request_def
        sample_backend_def odd_room_def sample_dashboard_def ascii_toUpperCase_def ascii_def
        trim_def is_whitespace_def)
  show ?thesis
    using members no_count empty card zero_count
    by (simp add: sample_room_def odd_room_def)
qed

subsection \<open>loadUserVerificationData\<close>



subsection \<open>loadMessages\<close>

text \<open>What \<open>loadMessages\<close> shows, and how an entry is enriched.\<close>

lemma loadMessages_take:
  assumes "map_of (faults db) Messages = None"
  shows "messages (fst (loadMessages db roomId st)) =
           map (with_profile db) (take 100 (message_log db roomId))"
  using assms
  by (simp add: loadMessages_def select_messages_def request_def order_asc_def message_log_def)

lemma created_at_with_profile: "created_at (with_profile db m) = m_created_at m"
  by (simp add: with_profile_def)

lemma sorted_message_log: "sorted (map m_created_at (message_log db roomId))"
  by (simp add: message_log_def)

lemma sorted_take_before_drop:
  assumes "sorted (map f xs)" and "y \<in> set (take n xs)" and "x \<in> set (drop n xs)"
  shows "f y \<le> f x"
proof -
  have "sorted (map f (take n xs) @ map f (drop n xs))"
    using assms(1) by (simp flip: map_append)
  then show ?thesis
    using assms(2,3) by (auto simp add: sorted_append)
qed

lemma with_profile_no_row:
  assumes "filter (\<lambda>p. pr_user_id p = m_user_id m) (t_profiles db) = []"
  shows "profiles (with_profile db m) = \<lparr>display_name = Some (ascii ''Anonymous''), avatar_url = None\<rparr>"
  using assms by (simp add: with_profile_def select_profile_def request_def split: option.splits)

lemma with_profile_one_row:
  assumes "map_of (faults db) Profiles = None"
    and "filter (\<lambda>p. pr_user_id p = m_user_id m) (t_profiles db) = [p]"
  shows "profiles (with_profile db m) = \<lparr>display_name = pr_display_name p, avatar_url = pr_avatar_url p\<rparr>"
  using assms by (simp add: with_profile_def select_profile_def request_def)

text \<open>
  What \<open>loadMessages\<close> computes when its request succeeds: the first \<open>min n 100\<close> entries
  of the room's log in creation-time order, every message left out being at least as late
  as every message shown; with at most 100 messages that is the whole log. Every entry
  carries the display name of its author's profile row, and "Anonymous" when the author
  has no profile row.
\<close>

lemma loadMessages_first_hundred:
  assumes "map_of (faults db) Messages = None"
  shows "messages (fst (loadMessages db roomId st)) =
           map (with_profile db) (take 100 (message_log db roomId)) \<and>
         length (messages (fst (loadMessages db roomId st))) = min (length (message_log db roomId)) 100 \<and>
         sorted (map created_at (messages (fst (loadMessages db roomId st)))) \<and>
         (\<forall>y \<in> set (messages (fst (loadMessages db roomId st))).
            \<forall>x \<in> set (drop 100 (message_log db roomId)). created_at y \<le> m_created_at x) \<and>
         (length (message_log db roomId) \<le> 100 \<longrightarrow>
            messages (fst (loadMessages db roomId st)) =
              map (with_profile db) (most_recent 100 (message_log db roomId))) \<and>
         (\<forall>m. filter (\<lambda>p. pr_user_id p = m_user_id m) (t_profiles db) = [] \<longrightarrow>
            display_name (profiles (with_profile db m)) = Some (ascii ''Anonymous'')) \<and>
         (\<forall>m p. map_of (faults db) Profiles = None \<and>
              filter (\<lambda>p. pr_user_id p = m_user_id m) (t_profiles db) = [p] \<longrightarrow>
            display_name (profiles (with_profile db m)) = pr_display_name p)"
proof -
  let ?log = "message_log db roomId"
  let ?shown = "messages (fst (loadMessages db roomId st))"
  have shown: "?shown = map (with_profile db) (take 100 ?log)"
    using assms by (rule loadMessages_take)
  have times: "map created_at ?shown = map m_created_at (take 100 ?log)"
    by (simp add: shown comp_def created_at_with_profile)
  have len: "length ?shown = min (length ?log) 100"
    by (simp add: shown)
  have "sorted (map m_created_at (take 100 ?log))"
    using sorted_message_log [of db roomId] by (simp add: take_map [symmetric] sorted_wrt_take)
  then have ordered: "sorted (map created_at ?shown)"
    by (simp add: times)
  have oldest: "\<forall>y \<in> set ?shown. \<forall>x \<in> set (drop 100 ?log). created_at y \<le> m_created_at x"
  proof (intro ballI)
    fix y x
    assume "y \<in> set ?shown" and later: "x \<in> set (drop 100 ?log)"
    then obtain m where m: "m \<in> set (take 100 ?log)" and y: "y = with_profile db m"
      by (auto simp add: shown)
    have "m_created_at m \<le> m_created_at x"
      using sorted_message_log m later by (rule sorted_take_before_drop)
    then show "created_at y \<le> m_created_at x"
      by (simp add: y created_at_with_profile)
  qed
  have short: "?shown = map (with_profile db) (most_recent 100 ?log)" if "length ?log \<le> 100"
    using that by (simp add: shown most_recent_def)
  show ?thesis
    using shown len ordered oldest short with_profile_no_row with_profile_one_row
    by simp
qed


lemma loadMessages_sample:
  "map_of (faults sample_backend) Messages = None \<and>
   messages (fst (loadMessages sample_backend 11 sample_chat)) =
     [\<lparr>msg_id = 20, content = ascii ''first'', user_id = 7, created_at = 11,
       profiles = \<lparr>display_name = Some (ascii ''Ada''), avatar_url = None\<rparr>\<rparr>,
      \<lparr>msg_id = 21, content = ascii ''second'', user_id = 8, created_at = 12,
       profiles = \<lparr>display_name = Some (ascii ''Anonymous''), avatar_url = None\<rparr>\<rparr>]"
proof -
  have up: "map_of (faults sample_backend) Messages = None"
    by (simp add: sample_backend_def)
  have log: "message_log sample_backend 11 =
      [\<lparr>m_id = 20, m_room_id = 11, m_user_id = 7, m_content = ascii ''first'',
        m_message_type = Some (ascii ''text''), m_created_at = 11\<rparr>,
       \<lparr>m_id = 21, m_room_id = 11, m_user_id = 8, m_content = ascii ''second'',
        m_message_type = Some (ascii ''text''), m_created_at = 12\<rparr>]"
    by (simp add: message_log_def sample_backend_def)
  have ada: "with_profile sample_backend
      \<lparr>m_id = 20, m_room_id = 11, m_user_id = 7, m_content = ascii ''first'',
        m_message_type = Some (ascii ''text''), m_created_at = 11\<rparr> =
      \<lparr>msg_id = 20, content = ascii ''first'', user_id = 7, created_at = 11,
       profiles = \<lparr>display_name = Some (ascii ''Ada''), avatar_url = None\<rparr>\<rparr>"
    by (simp add: with_profile_def select_profile_def request_def sample_backend_def)
  have anon: "with_profile sample_backend
      \<lparr>m_id = 21, m_room_id = 11, m_user_id = 8, m_content = ascii ''second'',
        m_message_type = Some (ascii ''text''), m_created_at = 12\<rparr> =
      \<lparr>msg_id = 21, content = ascii ''second'', user_id = 8, created_at = 12,
       profiles = \<lparr>display_name = Some (ascii ''Anonymous''), avatar_url = None\<rparr>\<rparr>"
    by (simp add: with_profile_def select_profile_def request_def sample_backend_def)
  show ?thesis
    using loadMessages_first_hundred [OF up, of 11 sample_chat] up
    by (simp add: log ada anon)
qed

lemma busy_log:
  "message_log busy_backend 11 =
     map (\<lambda>i. \<lparr>m_id = i, m_room_id = 11, m_user_id = 7, m_content = ascii ''hi'',
                m_message_type = Some (ascii ''text''), m_created_at = i\<rparr>) [0..<101]"
proof -
  have "sorted (map m_created_at (map (\<lambda>i. \<lparr>m_id = i, m_room_id = 11, m_user_id = 7,
      m_content = ascii ''hi'', m_message_type = Some (ascii ''text''), m_created_at = i\<rparr>) [0..<101]))"
    by (simp add: comp_def)
  then show ?thesis
    by (simp add: message_log_def busy_backend_def sort_key_id_if_sorted)
qed

lemma later_message:
  "select_message later_backend 101 =
     Data \<lparr>m_id = 101, m_room_id = 11, m_user_id = 7, m_content = ascii ''new'',
            m_message_type = Some (ascii ''text''), m_created_at = 101\<rparr>"
proof -
  have "filter (\<lambda>i. i = 101) [0..<101] = ([] :: nat list)"
    by (simp add: filter_empty_conv)
  then show ?thesis
    by (simp add: select_message_def request_def later_backend_def busy_backend_def
        sample_backend_def filter_map comp_def)
qed

text \<open>
  C1. The transcript is to hold the most recent \<open>min n 100\<close> messages of the room's log.
  With 101 messages in the room \<open>loadMessages\<close> shows the first hundred, not the last
  hundred: the latest message is missing, and a message that arrives afterwards through
  the subscription is put right after the hundredth.
\<close>

theorem loadMessages_misses_latest:
  "length (message_log busy_backend 11) = 101 \<and>
   map msg_id (messages (fst (loadMessages busy_backend 11 sample_chat))) = [0..<100] \<and>
   map msg_id (map (with_profile busy_backend) (most_recent 100 (message_log busy_backend 11))) =
     [1..<101] \<and>
   messages (fst (loadMessages busy_backend 11 sample_chat)) \<noteq>
     map (with_profile busy_backend) (most_recent 100 (message_log busy_backend 11)) \<and>
   map msg_id (messages (onMessageInsert later_backend 101
       (fst (loadMessages busy_backend 11 sample_chat)))) = [0..<100] @ [101]"
proof -
  have up: "map_of (faults busy_backend) Messages = None"
    by (simp add: busy_backend_def sample_backend_def)
  have ident: "msg_id (with_profile db m) = m_id m" for db m
    by (simp add: with_profile_def)
  have oldest: "take 100 (message_log busy_backend 11) =
      map (\<lambda>i. \<lparr>m_id = i, m_room_id = 11, m_user_id = 7, m_content = ascii ''hi'',
                 m_message_type = Some (ascii ''text''), m_created_at = i\<rparr>) [0..<100]"
    by (simp only: busy_log take_map) simp
  have newest: "most_recent 100 (message_log busy_backend 11) =
      map (\<lambda>i. \<lparr>m_id = i, m_room_id = 11, m_user_id = 7, m_content = ascii ''hi'',
                 m_message_type = Some (ascii ''text''), m_created_at = i\<rparr>) [1..<101]"
    by (simp only: busy_log most_recent_def drop_map length_map length_upt) simp
  have shown: "map msg_id (messages (fst (loadMessages busy_backend 11 sample_chat))) = [0..<100]"
    by (simp only: loadMessages_take [OF up] oldest) (simp add: comp_def ident)
  have recent: "map msg_id (map (with_profile busy_backend)
      (most_recent 100 (message_log busy_backend 11))) = [1..<101]"
    by (simp only: newest) (simp add: comp_def ident)
  have "[0..<100] \<noteq> [1..<101]"
    by (simp add: upt_conv_Cons)
  then have differ: "messages (fst (loadMessages busy_backend 11 sample_chat)) \<noteq>
     map (with_profile busy_backend) (most_recent 100 (message_log busy_backend 11))"
    using shown recent by metis
  have size: "length (message_log busy_backend 11) = 101"
    by (simp add: busy_log)
  have arrived: "map msg_id (messages (onMessageInsert later_backend 101
       (fst (loadMessages busy_backend 11 sample_chat)))) = [0..<100] @ [101]"
    by (simp only: onMessageInsert_def later_message response.case) (simp add: shown ident)
  show ?thesis
    using size shown recent differ arrived by simp
qed

subsection \<open>joinRoom on the chat page\<close>

text \<open>The table after one join.\<close>

lemma chat_joinRoom_faults:
  "faults (fst (chat_joinRoom srv db roomId userId)) = faults db"
  by (simp add: chat_joinRoom_def upsert_participant_def request_def split: option.splits)

lemma chat_joinRoom_table:
  assumes "map_of (faults db) RoomParticipants = None"
  shows "t_room_participants (fst (chat_joinRoom srv db roomId userId)) =
           (if list_ex (same_pair roomId userId) (t_room_participants db)
            then map (\<lambda>p. if same_pair roomId userId p then p\<lparr>p_is_active := Some True\<rparr> else p)
                   (t_room_participants db)
            else t_room_participants db @
                   [\<lparr>p_id = fresh_id srv, p_room_id = roomId, p_user_id = userId,
                     p_is_active = Some True, p_joined_at = now srv\<rparr>])"
  using assms by (simp add: chat_joinRoom_def upsert_participant_def request_def)

lemma filter_pair_activated:
  "filter (same_pair r u) (map (\<lambda>p. if same_pair r u p then p\<lparr>p_is_active := Some True\<rparr> else p) xs) =
     map (\<lambda>p. p\<lparr>p_is_active := Some True\<rparr>) (filter (same_pair r u) xs)"
  by (induction xs) (simp_all add: same_pair_def)

lemma filter_active_activated:
  "filter (active_pair r u) (map (\<lambda>p. if same_pair r u p then p\<lparr>p_is_active := Some True\<rparr> else p) xs) =
     map (\<lambda>p. p\<lparr>p_is_active := Some True\<rparr>) (filter (same_pair r u) xs)"
  by (induction xs) (auto simp add: same_pair_def active_pair_def)

lemma joined_once:
  assumes up: "map_of (faults db) RoomParticipants = None"
    and key: "length (filter (same_pair roomId userId) (t_room_participants db)) \<le> 1"
  shows "length (filter (same_pair roomId userId)
           (t_room_participants (fst (chat_joinRoom srv db roomId userId)))) = 1"
    and "length (filter (active_pair roomId userId)
           (t_room_participants (fst (chat_joinRoom srv db roomId userId)))) = 1"
proof -
  let ?rows = "t_room_participants db"
  show "length (filter (same_pair roomId userId)
           (t_room_participants (fst (chat_joinRoom srv db roomId userId)))) = 1"
  proof (cases "list_ex (same_pair roomId userId) ?rows")
    case True
    then have "filter (same_pair roomId userId) ?rows \<noteq> []"
      by (simp add: list_ex_iff filter_empty_conv)
    then have "length (filter (same_pair roomId userId) ?rows) = 1"
      using key by (cases "filter (same_pair roomId userId) ?rows") simp_all
    then show ?thesis
      using True by (simp add: chat_joinRoom_table [OF up] filter_pair_activated)
  next
    case False
    then have "filter (same_pair roomId userId) ?rows = []"
      by (simp add: list_ex_iff filter_empty_conv)
    then show ?thesis
      using False by (simp add: chat_joinRoom_table [OF up] same_pair_def)
  qed
  show "length (filter (active_pair roomId userId)
           (t_room_participants (fst (chat_joinRoom srv db roomId userId)))) = 1"
  proof (cases "list_ex (same_pair roomId userId) ?rows")
    case True
    then have "filter (same_pair roomId userId) ?rows \<noteq> []"
      by (simp add: list_ex_iff filter_empty_conv)
    then have "length (filter (same_pair roomId userId) ?rows) = 1"
      using key by (cases "filter (same_pair roomId userId) ?rows") simp_all
    then show ?thesis
      using True by (simp add: chat_joinRoom_table [OF up] filter_active_activated)
  next
    case False
    then have "filter (active_pair roomId userId) ?rows = []"
      by (auto simp add: list_ex_iff filter_empty_conv active_pair_def)
    then show ?thesis
      using False by (simp add: chat_joinRoom_table [OF up] same_pair_def active_pair_def)
  qed
qed

lemma rejoin_same_table:
  assumes up: "map_of (faults db) RoomParticipants = None"
  shows "length (t_room_participants (fst (chat_joinRoom srv' (fst (chat_joinRoom srv db roomId userId)) roomId userId))) =
         length (t_room_participants (fst (chat_joinRoom srv db roomId userId)))"
proof -
  let ?db1 = "fst (chat_joinRoom srv db roomId userId)"
  have up1: "map_of (faults ?db1) RoomParticipants = None"
    using up by (simp add: chat_joinRoom_faults)
  have "list_ex (same_pair roomId userId) (t_room_participants ?db1)"
  proof (cases "list_ex (same_pair roomId userId) (t_room_participants db)")
    case True
    then obtain p where "p \<in> set (t_room_participants db)" and "same_pair roomId userId p"
      by (auto simp add: list_ex_iff)
    then have "p\<lparr>p_is_active := Some True\<rparr> \<in> set (t_room_participants ?db1)"
      using True by (simp add: chat_joinRoom_table [OF up])
    moreover have "same_pair roomId userId (p\<lparr>p_is_active := Some True\<rparr>)"
      using \<open>same_pair roomId userId p\<close> by (simp add: same_pair_def)
    ultimately show ?thesis
      unfolding list_ex_iff by blast
  next
    case False
    then show ?thesis
      by (simp add: chat_joinRoom_table [OF up] same_pair_def)
  qed
  then show ?thesis
    by (simp add: chat_joinRoom_table [OF up1])
qed

text \<open>
  C4. From a table with at most one row for the (room, user) pair and a working request,
  joining twice leaves exactly one row for the pair, and that row is active; the second
  join adds no row to the table.
\<close>

theorem chat_joinRoom_twice:
  assumes "map_of (faults db) RoomParticipants = None"
    and "length (filter (same_pair roomId userId) (t_room_participants db)) \<le> 1"
  shows "length (filter (active_pair roomId userId)
           (t_room_participants
              (fst (chat_joinRoom srv' (fst (chat_joinRoom srv db roomId userId)) roomId userId)))) = 1 \<and>
         length (filter (same_pair roomId userId)
           (t_room_participants
              (fst (chat_joinRoom srv' (fst (chat_joinRoom srv db roomId userId)) roomId userId)))) = 1 \<and>
         length (t_room_participants
              (fst (chat_joinRoom srv' (fst (chat_joinRoom srv db roomId userId)) roomId userId))) =
           length (t_room_participants (fst (chat_joinRoom srv db roomId userId)))"
proof -
  let ?db1 = "fst (chat_joinRoom srv db roomId userId)"
  have up1: "map_of (faults ?db1) RoomParticipants = None"
    using assms(1) by (simp add: chat_joinRoom_faults)
  have key1: "length (filter (same_pair roomId userId) (t_room_participants ?db1)) \<le> 1"
    using joined_once(1) [OF assms, of srv] by simp
  show ?thesis
    using joined_once [OF up1 key1, of srv'] rejoin_same_table [OF assms(1), of srv' srv roomId userId]
    by simp
qed

theorem chat_joinRoom_twice_witness:
  "map_of (faults sample_backend) RoomParticipants = None \<and>
   length (filter (same_pair 12 8) (t_room_participants sample_backend)) = 0 \<and>
   filter (same_pair 12 8)
     (t_room_participants (fst (chat_joinRoom (sample_server\<lparr>fresh_id := 901\<rparr>)
        (fst (chat_joinRoom sample_server sample_backend 12 8)) 12 8))) =
     [\<lparr>p_id = 900, p_room_id = 12, p_user_id = 8, p_is_active = Some True, p_joined_at = 1000\<rparr>] \<and>
   length (filter (active_pair 11 9)
     (t_room_participants (fst (chat_joinRoom sample_server
        (fst (chat_joinRoom sample_server sample_backend 11 9)) 11 9)))) = 1"
proof -
  have up: "map_of (faults sample_backend) RoomParticipants = None"
    by (simp add: sample_backend_def)
  have new: "length (filter (same_pair 12 8) (t_room_participants sample_backend)) = 0"
    by (simp add: sample_backend_def same_pair_def)
  have old: "length (filter (same_pair 11 9) (t_room_participants sample_backend)) \<le> 1"
    by (simp add: sample_backend_def same_pair_def)
  have twice: "filter (same_pair 12 8)
     (t_room_participants (fst (chat_joinRoom (sample_server\<lparr>fresh_id := 901\<rparr>)
        (fst (chat_joinRoom sample_server sample_backend 12 8)) 12 8))) =
     [\<lparr>p_id = 900, p_room_id = 12, p_user_id = 8, p_is_active = Some True, p_joined_at = 1000\<rparr>]"
    by (simp add: chat_joinRoom_def upsert_participant_def request_def sample_backend_def
        sample_server_def same_pair_def)
  show ?thesis
    using chat_joinRoom_twice [OF up old, of sample_server sample_server] up new twice
    by simp
qed

end
